theory Spec2Isabelle
  imports Complex_Main
begin

section \<open>Numeric functions of the host languages\<close>

text \<open>
  JavaScript numbers and GLSL floats are modelled as real numbers: every formula below is
  the formula of the source, read over the reals.

  The GLSL built-ins \<^verbatim>\<open>clamp\<close>, \<^verbatim>\<open>smoothstep\<close>, \<^verbatim>\<open>mix\<close>, \<^verbatim>\<open>fract\<close> and \<^verbatim>\<open>mod\<close>
  are written out as the GLSL specification defines them.
\<close>

definition clamp :: "real \<Rightarrow> real \<Rightarrow> real \<Rightarrow> real" where
  "clamp v lo hi = min (max v lo) hi"

definition smoothstep :: "real \<Rightarrow> real \<Rightarrow> real \<Rightarrow> real" where
  "smoothstep edge0 edge1 v =
     (let t = clamp ((v - edge0) / (edge1 - edge0)) 0 1 in t * t * (3 - 2 * t))"

definition mix :: "real \<Rightarrow> real \<Rightarrow> real \<Rightarrow> real" where
  "mix a b w = a * (1 - w) + b * w"

definition fract :: "real \<Rightarrow> real" where
  "fract v = v - of_int \<lfloor>v\<rfloor>"

definition mod_glsl :: "real \<Rightarrow> real \<Rightarrow> real" where
  "mod_glsl a b = a - b * of_int \<lfloor>a / b\<rfloor>"

text \<open>The shader's own pseudo-random function: \<^verbatim>\<open>fract(sin(n) * 43758.5453123)\<close>.\<close>

definition hash :: "real \<Rightarrow> real" where
  "hash n = fract (sin n * 43758.5453123)"

text \<open>
  \<^verbatim>\<open>THREE.MathUtils.lerp(x, y, t)\<close> and \<^verbatim>\<open>THREE.MathUtils.smoothstep(x, min, max)\<close> of
  three.js (note the argument order of the latter: the value comes first).
\<close>

definition lerp :: "real \<Rightarrow> real \<Rightarrow> real \<Rightarrow> real" where
  "lerp a b t = (1 - t) * a + t * b"

definition MathUtils_smoothstep :: "real \<Rightarrow> real \<Rightarrow> real \<Rightarrow> real" where
  "MathUtils_smoothstep v lo hi =
     (if v \<le> lo then 0
      else if v \<ge> hi then 1
      else (let t = (v - lo) / (hi - lo) in t * t * (3 - 2 * t)))"

text \<open>\<^verbatim>\<open>Math.atan2(y, x)\<close>, by quadrant (signed zeros are not distinguished).\<close>

definition atan2 :: "real \<Rightarrow> real \<Rightarrow> real" where
  "atan2 b a =
     (if a > 0 then arctan (b / a)
      else if a < 0 then (if b \<ge> 0 then arctan (b / a) + pi else arctan (b / a) - pi)
      else if b > 0 then pi / 2
      else if b < 0 then - (pi / 2)
      else 0)"

section \<open>Shared types (types.ts)\<close>

text \<open>
  The fields \<^verbatim>\<open>x\<close>, \<^verbatim>\<open>y\<close>, \<^verbatim>\<open>z\<close> of the source carry a prefix here, since a record
  field is a constant of the theory.
\<close>

record FingerTip =
  ft_x :: real
  ft_y :: real
  dirX :: real
  dirY :: real

record HandState =
  detected :: bool
  hs_x :: real
  hs_y :: real
  palmX :: real
  palmY :: real
  pinch :: real
  rotation :: real
  fingerTips :: "FingerTip list"
  blast :: real

text \<open>One landmark of the detector: normalised image coordinates and a depth proxy.\<close>

record landmark =
  lm_x :: real
  lm_y :: real
  lm_z :: real

section \<open>The gesture extractor (HandController.tsx, predictWebcam)\<close>

definition pinchX :: "landmark list \<Rightarrow> real" where
  "pinchX landmarks =
     (let thumbTip = landmarks ! 4; indexTip = landmarks ! 8
      in (lm_x thumbTip + lm_x indexTip) / 2)"

definition pinchY :: "landmark list \<Rightarrow> real" where
  "pinchY landmarks =
     (let thumbTip = landmarks ! 4; indexTip = landmarks ! 8
      in (lm_y thumbTip + lm_y indexTip) / 2)"

definition palmCenterX :: "landmark list \<Rightarrow> real" where
  "palmCenterX landmarks =
     (let wrist = landmarks ! 0; thumbBase = landmarks ! 1; indexBase = landmarks ! 5;
          middleBase = landmarks ! 9; ringBase = landmarks ! 13; pinkyBase = landmarks ! 17
      in (lm_x wrist + lm_x thumbBase + lm_x indexBase + lm_x middleBase + lm_x ringBase
          + lm_x pinkyBase) / 6)"

definition palmCenterY :: "landmark list \<Rightarrow> real" where
  "palmCenterY landmarks =
     (let wrist = landmarks ! 0; thumbBase = landmarks ! 1; indexBase = landmarks ! 5;
          middleBase = landmarks ! 9; ringBase = landmarks ! 13; pinkyBase = landmarks ! 17
      in (lm_y wrist + lm_y thumbBase + lm_y indexBase + lm_y middleBase + lm_y ringBase
          + lm_y pinkyBase) / 6)"

text \<open>The raw pinch distance: 3D Euclidean distance of thumb tip (4) and index tip (8).\<close>

definition pinchDist :: "landmark list \<Rightarrow> real" where
  "pinchDist landmarks =
     (let thumbTip = landmarks ! 4; indexTip = landmarks ! 8;
          pinchDx = lm_x thumbTip - lm_x indexTip;
          pinchDy = lm_y thumbTip - lm_y indexTip;
          pinchDz = lm_z thumbTip - lm_z indexTip
      in sqrt (pinchDx * pinchDx + pinchDy * pinchDy + pinchDz * pinchDz))"

definition pinchStrength :: "landmark list \<Rightarrow> real" where
  "pinchStrength landmarks = min (max ((pinchDist landmarks - 0.02) / 0.15) 0) 1"

definition rotationRad :: "landmark list \<Rightarrow> real" where
  "rotationRad landmarks =
     (let wrist = landmarks ! 0; middleMCP = landmarks ! 9;
          vecX = lm_x middleMCP - lm_x wrist;
          vecY = lm_y middleMCP - lm_y wrist
      in atan2 vecY vecX + pi / 2)"

definition fingerTipIndices :: "nat list" where
  "fingerTipIndices = [4, 8, 12, 16, 20]"

definition fingerMCPIndices :: "nat list" where
  "fingerMCPIndices = [2, 5, 9, 13, 17]"

definition fingerTip_of :: "landmark list \<Rightarrow> nat \<Rightarrow> FingerTip" where
  "fingerTip_of landmarks i =
     (let tip = landmarks ! i;
          dX = lm_x tip - palmCenterX landmarks;
          dY = lm_y tip - palmCenterY landmarks;
          len = sqrt (dX * dX + dY * dY)
      in \<lparr> ft_x = 1.0 - lm_x tip,
           ft_y = lm_y tip,
           dirX = (if len > 0.001 then - dX / len else 0),
           dirY = (if len > 0.001 then dY / len else 0) \<rparr>)"

definition fingerTips_of :: "landmark list \<Rightarrow> FingerTip list" where
  "fingerTips_of landmarks = map (fingerTip_of landmarks) fingerTipIndices"

text \<open>
  The loop over the four non-thumb fingers. The state is the pair
  \<open>(fingersExtended, fingersCurled)\<close>; the distances to the wrist are taken in the image
  plane (x and y only).
\<close>

definition tipDistToWrist :: "landmark list \<Rightarrow> nat \<Rightarrow> real" where
  "tipDistToWrist landmarks i =
     (let tip = landmarks ! (fingerTipIndices ! i); wrist = landmarks ! 0
      in sqrt ((lm_x tip - lm_x wrist)\<^sup>2 + (lm_y tip - lm_y wrist)\<^sup>2))"

definition mcpDistToWrist :: "landmark list \<Rightarrow> nat \<Rightarrow> real" where
  "mcpDistToWrist landmarks i =
     (let mcp = landmarks ! (fingerMCPIndices ! i); wrist = landmarks ! 0
      in sqrt ((lm_x mcp - lm_x wrist)\<^sup>2 + (lm_y mcp - lm_y wrist)\<^sup>2))"

definition finger_step :: "landmark list \<Rightarrow> nat \<Rightarrow> nat \<times> nat \<Rightarrow> nat \<times> nat" where
  "finger_step landmarks i cnt =
     (if tipDistToWrist landmarks i > mcpDistToWrist landmarks i * 1.2
        then (fst cnt + 1, snd cnt)
      else if tipDistToWrist landmarks i < mcpDistToWrist landmarks i * 0.9
        then (fst cnt, snd cnt + 1)
      else cnt)"

definition finger_counts :: "landmark list \<Rightarrow> nat \<times> nat" where
  "finger_counts landmarks = fold (finger_step landmarks) [1..<5] (0, 0)"

definition fingersExtended :: "landmark list \<Rightarrow> nat" where
  "fingersExtended landmarks = fst (finger_counts landmarks)"

definition fingersCurled :: "landmark list \<Rightarrow> nat" where
  "fingersCurled landmarks = snd (finger_counts landmarks)"

definition isFist :: "landmark list \<Rightarrow> bool" where
  "isFist landmarks \<longleftrightarrow> fingersCurled landmarks \<ge> 3 \<and> pinchStrength landmarks < 0.3"

definition blastValue :: "landmark list \<Rightarrow> real" where
  "blastValue landmarks = (if isFist landmarks then 1.0 else 0.0)"

text \<open>The \<^verbatim>\<open>HandState\<close> written for a frame with a hand.\<close>

definition tracked_state :: "landmark list \<Rightarrow> HandState" where
  "tracked_state landmarks =
     \<lparr> detected = True,
       hs_x = 1.0 - pinchX landmarks,
       hs_y = pinchY landmarks,
       palmX = 1.0 - palmCenterX landmarks,
       palmY = palmCenterY landmarks,
       pinch = pinchStrength landmarks,
       rotation = rotationRad landmarks,
       fingerTips = fingerTips_of landmarks,
       blast = blastValue landmarks \<rparr>"

text \<open>
  The branch on the detector's result. \<open>results_landmarks\<close> is \<^verbatim>\<open>results.landmarks\<close>:
  \<open>None\<close> when the field is absent, otherwise the list of detected hands, of which only
  the first is used. With no hand the previous state is copied and only \<open>detected\<close> is
  overwritten.
\<close>

definition detect_update :: "landmark list list option \<Rightarrow> HandState \<Rightarrow> HandState" where
  "detect_update results_landmarks current =
     (case results_landmarks of
        Some (landmarks # _) \<Rightarrow> tracked_state landmarks
      | _ \<Rightarrow> current\<lparr>detected := False\<rparr>)"

text \<open>
  One call of \<^verbatim>\<open>predictWebcam\<close> on the shared \<^verbatim>\<open>handStateRef\<close>: \<open>refs_ready\<close> says that
  the video element and the landmarker exist (the early return otherwise), and the
  detector only runs once the video has a positive width.
\<close>

definition predictWebcam ::
  "bool \<Rightarrow> real \<Rightarrow> landmark list list option \<Rightarrow> HandState \<Rightarrow> HandState" where
  "predictWebcam refs_ready videoWidth results_landmarks current =
     (if \<not> refs_ready then current
      else if videoWidth > 0 then detect_update results_landmarks current
      else current)"

text \<open>The initial content of \<^verbatim>\<open>handStateRef\<close> (App.tsx).\<close>

definition initialHandState :: HandState where
  "initialHandState =
     \<lparr> detected = False, hs_x = 0.5, hs_y = 0.5, palmX = 0.5, palmY = 0.5,
       pinch = 1.0, rotation = 0,
       fingerTips =
         [\<lparr> ft_x = 0.5, ft_y = 0.3, dirX = 0, dirY = -1 \<rparr>,
          \<lparr> ft_x = 0.5, ft_y = 0.2, dirX = 0, dirY = -1 \<rparr>,
          \<lparr> ft_x = 0.5, ft_y = 0.2, dirX = 0, dirY = -1 \<rparr>,
          \<lparr> ft_x = 0.5, ft_y = 0.2, dirX = 0, dirY = -1 \<rparr>,
          \<lparr> ft_x = 0.5, ft_y = 0.3, dirX = 0, dirY = -1 \<rparr>],
       blast = 0 \<rparr>"

section \<open>The particle generator (ButterflyCurve, useMemo)\<close>

type_synonym vec3 = "real \<times> real \<times> real"

text \<open>
  The four sub-structures of structure A, in generation order. The generator's state is
  the two arrays it fills (\<open>pts\<close>, flat, three numbers per point, and \<open>prog\<close>) and the
  running index \<open>idx\<close>; \<open>made\<close> records which loop pushed each point. The source
  copies both arrays into 32-bit float arrays at the end; that rounding is not modelled.
\<close>

datatype substructure = Icosahedron | Rings | Spiral | Floating

record gen_state =
  pts :: "real list"
  prog :: "real list"
  made :: "substructure list"
  idx :: nat

text \<open>\<^verbatim>\<open>pts.push(x, y, z); prog.push(idx++ / numPoints)\<close>\<close>

definition push_point :: "nat \<Rightarrow> substructure \<Rightarrow> vec3 \<Rightarrow> gen_state \<Rightarrow> gen_state" where
  "push_point numPoints s p st =
     (case p of (px, py, pz) \<Rightarrow>
        st\<lparr> pts := pts st @ [px, py, pz],
            prog := prog st @ [real (idx st) / real numPoints],
            made := made st @ [s],
            idx := idx st + 1 \<rparr>)"

definition phi_ico :: real where
  "phi_ico = (1 + sqrt 5) / 2"

definition icoVertices :: "vec3 list" where
  "icoVertices =
     [(-1, phi_ico, 0), (1, phi_ico, 0), (-1, - phi_ico, 0), (1, - phi_ico, 0),
      (0, -1, phi_ico), (0, 1, phi_ico), (0, -1, - phi_ico), (0, 1, - phi_ico),
      (phi_ico, 0, -1), (phi_ico, 0, 1), (- phi_ico, 0, -1), (- phi_ico, 0, 1)]"

definition icoEdges :: "(nat \<times> nat) list" where
  "icoEdges =
     [(0,1),(0,5),(0,7),(0,10),(0,11),(1,5),(1,7),(1,8),(1,9),
      (2,3),(2,4),(2,6),(2,10),(2,11),(3,4),(3,6),(3,8),(3,9),
      (4,5),(4,9),(4,11),(5,9),(5,11),(6,7),(6,8),(6,10),(7,8),(7,10),
      (8,9),(10,11)]"

definition icoPoints :: "nat \<Rightarrow> nat" where
  "icoPoints numPoints = nat \<lfloor>real numPoints * 0.2\<rfloor>"

definition pointsPerEdge :: "nat \<Rightarrow> nat" where
  "pointsPerEdge numPoints = nat \<lfloor>real (icoPoints numPoints) / real (length icoEdges)\<rfloor>"

definition ico_point :: "real \<Rightarrow> nat \<Rightarrow> nat \<Rightarrow> nat \<Rightarrow> vec3" where
  "ico_point orbRadius ppe e i =
     (case icoEdges ! e of (v1, v2) \<Rightarrow>
      case icoVertices ! v1 of (s0, s1, s2) \<Rightarrow>
      case icoVertices ! v2 of (e0, e1, e2) \<Rightarrow>
        (let t = real i / real ppe
         in ((s0 + (e0 - s0) * t) * orbRadius * 0.35,
             (s1 + (e1 - s1) * t) * orbRadius * 0.35,
             (s2 + (e2 - s2) * t) * orbRadius * 0.35)))"

definition ico_edge_loop :: "nat \<Rightarrow> real \<Rightarrow> nat \<Rightarrow> gen_state \<Rightarrow> gen_state" where
  "ico_edge_loop numPoints orbRadius e st =
     fold (\<lambda>i. push_point numPoints Icosahedron
                  (ico_point orbRadius (pointsPerEdge numPoints) e i))
          [0..<pointsPerEdge numPoints] st"

definition ico_loop :: "nat \<Rightarrow> real \<Rightarrow> gen_state \<Rightarrow> gen_state" where
  "ico_loop numPoints orbRadius st =
     fold (ico_edge_loop numPoints orbRadius) [0..<length icoEdges] st"

definition ringPoints :: "nat \<Rightarrow> nat" where
  "ringPoints numPoints = nat \<lfloor>real numPoints * 0.3\<rfloor>"

definition pointsPerRing :: "nat \<Rightarrow> nat" where
  "pointsPerRing numPoints = nat \<lfloor>real (ringPoints numPoints) / 3\<rfloor>"

definition ring_point :: "real \<Rightarrow> nat \<Rightarrow> nat \<Rightarrow> nat \<Rightarrow> vec3" where
  "ring_point orbRadius ppr ring i =
     (let theta = (real i / real ppr) * pi * 2; r = orbRadius * 0.9
      in if ring = 0 then (r * cos theta, r * sin theta, 0)
         else if ring = 1 then (r * cos theta, 0, r * sin theta)
         else (0, r * cos theta, r * sin theta))"

definition ring_inner_loop :: "nat \<Rightarrow> real \<Rightarrow> nat \<Rightarrow> gen_state \<Rightarrow> gen_state" where
  "ring_inner_loop numPoints orbRadius ring st =
     fold (\<lambda>i. push_point numPoints Rings
                  (ring_point orbRadius (pointsPerRing numPoints) ring i))
          [0..<pointsPerRing numPoints] st"

definition ring_loop :: "nat \<Rightarrow> real \<Rightarrow> gen_state \<Rightarrow> gen_state" where
  "ring_loop numPoints orbRadius st =
     fold (ring_inner_loop numPoints orbRadius) [0..<3] st"

definition spiralPoints :: "nat \<Rightarrow> nat" where
  "spiralPoints numPoints = nat \<lfloor>real numPoints * 0.3\<rfloor>"

definition spiral_point :: "real \<Rightarrow> nat \<Rightarrow> nat \<Rightarrow> vec3" where
  "spiral_point orbRadius sp i =
     (let t = real i / real sp; phi = t * pi; theta = t * pi * 12; r = orbRadius * 0.85
      in (r * sin phi * cos theta, r * sin phi * sin theta, r * cos phi))"

definition spiral_loop :: "nat \<Rightarrow> real \<Rightarrow> gen_state \<Rightarrow> gen_state" where
  "spiral_loop numPoints orbRadius st =
     fold (\<lambda>i. push_point numPoints Spiral
                  (spiral_point orbRadius (spiralPoints numPoints) i))
          [0..<spiralPoints numPoints] st"

definition goldenRatio :: real where
  "goldenRatio = (1 + sqrt 5) / 2"

text \<open>\<open>rnd i\<close> is the value \<^verbatim>\<open>Math.random()\<close> returns for the \<open>i\<close>-th floating point.\<close>

definition float_point :: "real \<Rightarrow> (nat \<Rightarrow> real) \<Rightarrow> nat \<Rightarrow> nat \<Rightarrow> vec3" where
  "float_point orbRadius rnd floatPoints i =
     (let t = real i / real floatPoints;
          theta = 2 * pi * real i / goldenRatio;
          phi = arccos (1 - 2 * t);
          r = orbRadius * (0.95 + rnd i * 0.1)
      in (r * sin phi * cos theta, r * sin phi * sin theta, r * cos phi))"

definition float_loop :: "nat \<Rightarrow> real \<Rightarrow> (nat \<Rightarrow> real) \<Rightarrow> gen_state \<Rightarrow> gen_state" where
  "float_loop numPoints orbRadius rnd st =
     (let floatPoints = numPoints - idx st
      in fold (\<lambda>i. push_point numPoints Floating (float_point orbRadius rnd floatPoints i))
              [0..<floatPoints] st)"

text \<open>
  The generator for a particle count \<open>numPoints\<close> and the scale \<^verbatim>\<open>params.scale\<close>; the
  source fixes \<open>numPoints\<close> to 40000.
\<close>

definition generate :: "nat \<Rightarrow> real \<Rightarrow> (nat \<Rightarrow> real) \<Rightarrow> gen_state" where
  "generate numPoints scale rnd =
     (let orbRadius = scale * 9.3
      in float_loop numPoints orbRadius rnd
           (spiral_loop numPoints orbRadius
              (ring_loop numPoints orbRadius
                 (ico_loop numPoints orbRadius
                    \<lparr> pts = [], prog = [], made = [], idx = 0 \<rparr>))))"

definition numPoints_default :: nat where
  "numPoints_default = 40000"

definition curve_points :: "real \<Rightarrow> (nat \<Rightarrow> real) \<Rightarrow> gen_state" where
  "curve_points scale rnd = generate numPoints_default scale rnd"

text \<open>How many generated points a sub-structure has.\<close>

definition count_made :: "substructure \<Rightarrow> gen_state \<Rightarrow> nat" where
  "count_made s st = length (filter (\<lambda>m. m = s) (made st))"

text \<open>
  The reading of ``within rounding of its target fraction'' used below: the count is the
  target \<open>fraction * N\<close> rounded down or up.
\<close>

definition within_rounding :: "nat \<Rightarrow> real \<Rightarrow> nat \<Rightarrow> bool" where
  "within_rounding c fraction n \<longleftrightarrow> \<bar>real c - fraction * real n\<bar> < 1"

text \<open>
  Two notions for reasoning about the loops. A state is well numbered when its progress
  values are \<open>0 / n, 1 / n, ...\<close> up to the running index and every point has its
  sub-structure recorded; \<open>appended n s k st st'\<close> says that \<open>st'\<close> is \<open>st\<close> after \<open>k\<close> more
  points of the sub-structure \<open>s\<close>.
\<close>

definition well_numbered :: "nat \<Rightarrow> gen_state \<Rightarrow> bool" where
  "well_numbered n st \<longleftrightarrow>
     prog st = map (\<lambda>k. real k / real n) [0..<idx st] \<and> length (made st) = idx st"

definition appended :: "nat \<Rightarrow> substructure \<Rightarrow> nat \<Rightarrow> gen_state \<Rightarrow> gen_state \<Rightarrow> bool" where
  "appended n s k st st' \<longleftrightarrow>
     idx st' = idx st + k \<and> made st' = made st @ replicate k s
     \<and> (well_numbered n st \<longrightarrow> well_numbered n st')"

text \<open>The point counts of the four loops in closed form.\<close>

definition icoCount :: "nat \<Rightarrow> nat" where
  "icoCount n = 30 * (n div 5 div 30)"

definition ringCount :: "nat \<Rightarrow> nat" where
  "ringCount n = 3 * (3 * n div 10 div 3)"

definition spiralCount :: "nat \<Rightarrow> nat" where
  "spiralCount n = 3 * n div 10"

definition floatCount :: "nat \<Rightarrow> nat" where
  "floatCount n = n - (icoCount n + ringCount n + spiralCount n)"

text \<open>A sample stream of random numbers, for evaluating the generator.\<close>

definition sample_rnd :: "nat \<Rightarrow> real" where
  "sample_rnd i = 1 / 2"

section \<open>The vertex shader: structure A, blend and blast\<close>

definition vscale :: "vec3 \<Rightarrow> real \<Rightarrow> vec3" where
  "vscale v k = (case v of (a, b, c) \<Rightarrow> (a * k, b * k, c * k))"

definition vadd :: "vec3 \<Rightarrow> vec3 \<Rightarrow> vec3" where
  "vadd v w = (case v of (a, b, c) \<Rightarrow> case w of (a', b', c') \<Rightarrow> (a + a', b + b', c + c'))"

definition vmix :: "vec3 \<Rightarrow> vec3 \<Rightarrow> real \<Rightarrow> vec3" where
  "vmix v w k =
     (case v of (a, b, c) \<Rightarrow> case w of (a', b', c') \<Rightarrow> (mix a a' k, mix b b' k, mix c c' k))"

text \<open>The sub-structure the shader selects from the progress value (its \<^verbatim>\<open>structure\<close>).\<close>

definition structure_sel :: "real \<Rightarrow> real" where
  "structure_sel aProgress =
     (if aProgress < 0.2 then 0.0
      else if aProgress < 0.5 then 1.0
      else if aProgress < 0.8 then 2.0
      else 3.0)"

text \<open>The number the shader's \<^verbatim>\<open>structure\<close> variable holds for each sub-structure.\<close>

fun structure_code :: "substructure \<Rightarrow> real" where
  "structure_code Icosahedron = 0.0"
| "structure_code Rings = 1.0"
| "structure_code Spiral = 2.0"
| "structure_code Floating = 3.0"

definition rotated :: "vec3 \<Rightarrow> real \<Rightarrow> real \<Rightarrow> vec3" where
  "rotated orbPos aProgress uTime =
     (case orbPos of (ox, oy, oz) \<Rightarrow>
      if structure_sel aProgress < 0.5 then
        (let rotY = uTime * 0.3; rotX = uTime * 0.2;
             cosY = cos rotY; sinY = sin rotY; cosX = cos rotX; sinX = sin rotX
         in (ox * cosY - oz * sinY,
             oy * cosX - (ox * sinY + oz * cosY) * sinX,
             oy * sinX + (ox * sinY + oz * cosY) * cosX))
      else if structure_sel aProgress < 1.5 then
        (let ringIdx = of_int \<lfloor>(aProgress - 0.2) / 0.1\<rfloor>;
             rotSpeed = 0.4 + ringIdx * 0.2;
             rotDir = (if mod_glsl ringIdx 2.0 < 1.0 then 1.0 else - 1.0);
             rot = uTime * rotSpeed * rotDir;
             c = cos rot; s = sin rot
         in if ringIdx < 1.0 then (ox * c - oy * s, ox * s + oy * c, oz)
            else if ringIdx < 2.0 then (ox * c - oz * s, oy, ox * s + oz * c)
            else (ox, oy * c - oz * s, oy * s + oz * c))
      else if structure_sel aProgress < 2.5 then
        (let twist = uTime * 0.5; c = cos twist; s = sin twist
         in (ox * c - oz * s, oy, ox * s + oz * c))
      else
        (let shimmer = sin (uTime * 3.0 + aProgress * 50.0) * 0.05
         in vscale orbPos (1.0 + shimmer)))"

definition pulse :: "real \<Rightarrow> real" where
  "pulse uTime = 1.0 + sin (uTime * 1.5) * 0.03"

definition shrinkFactor :: "real \<Rightarrow> real" where
  "shrinkFactor uPinch = smoothstep 0.2 0.7 uPinch"

definition minSize :: real where
  "minSize = 0.3"

definition orbScale :: "real \<Rightarrow> real" where
  "orbScale uPinch = mix minSize 1.0 (shrinkFactor uPinch)"

definition butterflyPos :: "vec3 \<Rightarrow> real \<Rightarrow> real \<Rightarrow> real \<Rightarrow> vec3" where
  "butterflyPos position aProgress uTime uPinch =
     vscale (vscale (rotated position aProgress uTime) (pulse uTime)) (orbScale uPinch)"

text \<open>
  The blend of the structure-A position \<open>bPos\<close> (the shader's \<^verbatim>\<open>butterflyPos\<close>) and the
  structure-B position \<open>magicPos\<close>, which the band formulas of the shader have computed
  before and which enters the blend as a value.
\<close>

definition easeMagic :: "real \<Rightarrow> real" where
  "easeMagic uMagic = smoothstep 0.0 1.0 uMagic"

definition rotatedButterfly :: "vec3 \<Rightarrow> real \<Rightarrow> vec3" where
  "rotatedButterfly bPos uMagic =
     (case bPos of (bx, by, bz) \<Rightarrow>
        (let rot = easeMagic uMagic * 3.14; c = cos rot; s = sin rot
         in (bx * c - by * s, bx * s + by * c, bz)))"

definition noiseAmp :: "real \<Rightarrow> real" where
  "noiseAmp uMagic = sin (uMagic * 3.14159) * 2.5"

definition noise :: "real \<Rightarrow> real \<Rightarrow> vec3" where
  "noise aProgress uMagic =
     vscale (hash (aProgress * 10.0) - 0.5,
             hash (aProgress * 20.0) - 0.5,
             hash (aProgress * 30.0) - 0.5) (noiseAmp uMagic)"

definition blend :: "vec3 \<Rightarrow> vec3 \<Rightarrow> real \<Rightarrow> real \<Rightarrow> vec3" where
  "blend bPos magicPos aProgress uMagic =
     vadd (vmix (rotatedButterfly bPos uMagic) magicPos (easeMagic uMagic))
          (noise aProgress uMagic)"




section \<open>The per-frame smoothing (ButterflyCurve, useFrame)\<close>

record targets =
  magicValue :: real
  rotationTarget :: real
  blastTarget :: real
  pinchValue :: real
  visibleTarget :: real

text \<open>
  The targets of one frame. \<open>handStateRef\<close> is the optional property of the component;
  \<^verbatim>\<open>blast || 0\<close> replaces a falsy blast value by 0.
\<close>

definition frame_targets :: "HandState option \<Rightarrow> targets" where
  "frame_targets handStateRef =
     (let dflt = \<lparr> magicValue = 0, rotationTarget = 0, blastTarget = 0,
                   pinchValue = 1.0, visibleTarget = 0.0 \<rparr>
      in case handStateRef of
           None \<Rightarrow> dflt
         | Some hs \<Rightarrow>
             if detected hs then
               \<lparr> magicValue = MathUtils_smoothstep (pinch hs) 0.3 0.8,
                 rotationTarget = rotation hs,
                 blastTarget = (if blast hs = 0 then 0 else blast hs),
                 pinchValue = pinch hs,
                 visibleTarget = 1.0 \<rparr>
             else dflt)"

text \<open>The two smoothing rates of the blast amount, as the two branches use them.\<close>

definition blast_onset_rate :: real where
  "blast_onset_rate = 0.08"

definition blast_decay_rate :: real where
  "blast_decay_rate = 0.06"

definition blast_update :: "real \<Rightarrow> real \<Rightarrow> real" where
  "blast_update currentBlast bTarget =
     (if bTarget > 0.5 then lerp currentBlast 1.0 blast_onset_rate
      else lerp currentBlast 0.0 blast_decay_rate)"

record uniforms =
  uTime :: real
  uSize :: real
  uMagic :: real
  uPinch :: real
  uVisible :: real
  uRotation :: real
  uBlast :: real
  uBlastTime :: real

definition initial_uniforms :: uniforms where
  "initial_uniforms =
     \<lparr> uTime = 0, uSize = 12.0, uMagic = 0.0, uPinch = 1.0, uVisible = 0.0,
       uRotation = 0.0, uBlast = 0.0, uBlastTime = 0.0 \<rparr>"

definition useFrame :: "real \<Rightarrow> HandState option \<Rightarrow> uniforms \<Rightarrow> uniforms" where
  "useFrame elapsed handStateRef u =
     (let tg = frame_targets handStateRef
      in u\<lparr> uTime := elapsed,
            uVisible := lerp (uVisible u) (visibleTarget tg) 0.1,
            uPinch := lerp (uPinch u) (pinchValue tg) 0.12,
            uMagic := lerp (uMagic u) (magicValue tg) 0.08,
            uRotation := lerp (uRotation u) (rotationTarget tg) 0.1,
            uBlast := blast_update (uBlast u) (blastTarget tg) \<rparr>)"

text \<open>
  \<open>n\<close> consecutive frames reading the same hand state; \<open>clock k\<close> is the elapsed time the
  \<open>k\<close>-th frame reads.
\<close>

fun frames :: "(nat \<Rightarrow> real) \<Rightarrow> nat \<Rightarrow> HandState option \<Rightarrow> uniforms \<Rightarrow> uniforms" where
  "frames clock 0 handStateRef u = u"
| "frames clock (Suc n) handStateRef u =
     useFrame (clock n) handStateRef (frames clock n handStateRef u)"

section \<open>Notions of the specification\<close>

text \<open>The distance of two landmarks in the image plane.\<close>

definition dist2 :: "landmark \<Rightarrow> landmark \<Rightarrow> real" where
  "dist2 p q = sqrt ((lm_x p - lm_x q)\<^sup>2 + (lm_y p - lm_y q)\<^sup>2)"

text \<open>
  A finger, given by the landmark numbers of its tip and of its base knuckle, is curled
  when the tip is closer to the wrist (landmark 0) than 0.9 times the base knuckle is.
  The four non-thumb fingers are index (tip 8, knuckle 5), middle (12, 9), ring (16, 13)
  and pinky (20, 17).
\<close>

definition curled :: "landmark list \<Rightarrow> nat \<Rightarrow> nat \<Rightarrow> bool" where
  "curled landmarks tip knuckle \<longleftrightarrow>
     dist2 (landmarks ! tip) (landmarks ! 0) < 0.9 * dist2 (landmarks ! knuckle) (landmarks ! 0)"

definition curled_count :: "landmark list \<Rightarrow> nat" where
  "curled_count landmarks =
     (if curled landmarks 8 5 then 1 else 0) + (if curled landmarks 12 9 then 1 else 0)
     + (if curled landmarks 16 13 then 1 else 0) + (if curled landmarks 20 17 then 1 else 0)"

text \<open>The 3D Euclidean distance of two landmarks.\<close>

definition dist3 :: "landmark \<Rightarrow> landmark \<Rightarrow> real" where
  "dist3 p q = sqrt ((lm_x p - lm_x q)\<^sup>2 + (lm_y p - lm_y q)\<^sup>2 + (lm_z p - lm_z q)\<^sup>2)"

text \<open>The linear map that sends \<open>lo\<close> to 0 and \<open>hi\<close> to 1, clamped to \<open>[0, 1]\<close>.\<close>

definition remap01 :: "real \<Rightarrow> real \<Rightarrow> real \<Rightarrow> real" where
  "remap01 lo hi d = (if d \<le> lo then 0 else if d \<ge> hi then 1 else (d - lo) / (hi - lo))"

text \<open>The largest absolute value of a coordinate of a vector.\<close>

definition max_abs :: "vec3 \<Rightarrow> real" where
  "max_abs v = (case v of (a, b, c) \<Rightarrow> max \<bar>a\<bar> (max \<bar>b\<bar> \<bar>c\<bar>))"

section \<open>Sample frames\<close>

text \<open>
  Four frames of 21 landmarks used to evaluate the extractor: a closed fist seen edge-on
  (all finger tips pulled back towards the wrist, thumb tip on the index tip); an open
  hand (tips far from the wrist, thumb tip half a frame width away from the index tip); a
  pinch with two curled fingers (thumb tip on the index tip, index and middle pulled back,
  ring and pinky stretched out); and a pointing hand with three curled fingers (index
  stretched out and far from the thumb tip, the other three pulled back).
\<close>

definition lm :: "real \<Rightarrow> real \<Rightarrow> real \<Rightarrow> landmark" where
  "lm a b c = \<lparr> lm_x = a, lm_y = b, lm_z = c \<rparr>"

definition fist_frame :: "landmark list" where
  "fist_frame =
     [lm 0.5 0.9 0,
      lm 0.5 0.8 0, lm 0.5 0.75 0, lm 0.5 0.7 0, lm 0.5 0.7 0,
      lm 0.5 0.6 0, lm 0.5 0.55 0, lm 0.5 0.65 0, lm 0.5 0.7 0,
      lm 0.5 0.6 0, lm 0.5 0.55 0, lm 0.5 0.65 0, lm 0.5 0.7 0,
      lm 0.5 0.6 0, lm 0.5 0.55 0, lm 0.5 0.65 0, lm 0.5 0.7 0,
      lm 0.5 0.6 0, lm 0.5 0.55 0, lm 0.5 0.65 0, lm 0.5 0.7 0]"

definition open_frame :: "landmark list" where
  "open_frame =
     [lm 0.5 0.9 0,
      lm 0.4 0.8 0, lm 0.3 0.75 0, lm 0.25 0.7 0, lm 0.2 0.7 0,
      lm 0.5 0.6 0, lm 0.5 0.5 0, lm 0.5 0.4 0, lm 0.5 0.3 0,
      lm 0.5 0.6 0, lm 0.5 0.5 0, lm 0.5 0.4 0, lm 0.5 0.3 0,
      lm 0.5 0.6 0, lm 0.5 0.5 0, lm 0.5 0.4 0, lm 0.5 0.3 0,
      lm 0.5 0.6 0, lm 0.5 0.5 0, lm 0.5 0.4 0, lm 0.5 0.3 0]"

definition pinch_frame :: "landmark list" where
  "pinch_frame =
     [lm 0.5 0.9 0,
      lm 0.5 0.8 0, lm 0.5 0.75 0, lm 0.5 0.7 0, lm 0.5 0.7 0,
      lm 0.5 0.6 0, lm 0.5 0.55 0, lm 0.5 0.65 0, lm 0.5 0.7 0,
      lm 0.5 0.6 0, lm 0.5 0.55 0, lm 0.5 0.65 0, lm 0.5 0.7 0,
      lm 0.5 0.6 0, lm 0.5 0.5 0, lm 0.5 0.4 0, lm 0.5 0.3 0,
      lm 0.5 0.6 0, lm 0.5 0.5 0, lm 0.5 0.4 0, lm 0.5 0.3 0]"

definition point_frame :: "landmark list" where
  "point_frame =
     [lm 0.5 0.9 0,
      lm 0.4 0.8 0, lm 0.3 0.75 0, lm 0.25 0.7 0, lm 0.2 0.7 0,
      lm 0.5 0.6 0, lm 0.5 0.5 0, lm 0.5 0.4 0, lm 0.5 0.3 0,
      lm 0.5 0.6 0, lm 0.5 0.55 0, lm 0.5 0.65 0, lm 0.5 0.7 0,
      lm 0.5 0.6 0, lm 0.5 0.55 0, lm 0.5 0.65 0, lm 0.5 0.7 0,
      lm 0.5 0.6 0, lm 0.5 0.55 0, lm 0.5 0.65 0, lm 0.5 0.7 0]"

section \<open>Properties of the numeric functions\<close>

lemma clamp_mono: "v \<le> w \<Longrightarrow> clamp v 0 1 \<le> clamp w 0 1"
  by (simp add: clamp_def min_def max_def)

lemma clamp_range: "0 \<le> clamp v 0 1 \<and> clamp v 0 1 \<le> 1"
  by (simp add: clamp_def min_def max_def)

lemma smoothstep_le_edge0: "e0 < e1 \<Longrightarrow> v \<le> e0 \<Longrightarrow> smoothstep e0 e1 v = 0"
  by (simp add: smoothstep_def clamp_def Let_def max_def min_def field_simps)

lemma smoothstep_ge_edge1: "e0 < e1 \<Longrightarrow> e1 \<le> v \<Longrightarrow> smoothstep e0 e1 v = 1"
  by (simp add: smoothstep_def clamp_def Let_def max_def min_def field_simps)

text \<open>The cubic \<open>t\<^sup>2 (3 - 2 t)\<close> of both smoothsteps is monotone on the unit interval.\<close>

lemma cubic_mono:
  assumes "0 \<le> a" "a \<le> b" "b \<le> (1::real)"
  shows "a * a * (3 - 2 * a) \<le> b * b * (3 - 2 * b)"
proof -
  have ab: "a * b \<le> a" "a * b \<le> b" "a * a \<le> a" "b * b \<le> b"
    using assms by (simp_all add: mult_left_le mult_right_le_one_le mult_left_le_one_le)
  have "b * b * (3 - 2 * b) - a * a * (3 - 2 * a)
          = (b - a) * (3 * (a + b) - 2 * (a * a + a * b + b * b))"
    by (simp add: algebra_simps)
  moreover have "0 \<le> 3 * (a + b) - 2 * (a * a + a * b + b * b)"
  proof -
    have "2 * (a * a + a * b + b * b) = 2 * (a * a) + (a * b + a * b) + 2 * (b * b)"
      by (simp add: algebra_simps)
    also have "\<dots> \<le> 2 * a + (a + b) + 2 * b"
      using ab by (intro add_mono mult_left_mono) simp_all
    finally show ?thesis by simp
  qed
  moreover have "0 \<le> b - a" using assms by simp
  ultimately show ?thesis
    by (metis diff_ge_0_iff_ge mult_nonneg_nonneg)
qed

lemma smoothstep_mono:
  assumes "e0 < e1" "v \<le> w"
  shows "smoothstep e0 e1 v \<le> smoothstep e0 e1 w"
proof -
  have "(v - e0) / (e1 - e0) \<le> (w - e0) / (e1 - e0)"
    using assms by (simp add: divide_right_mono)
  then have "clamp ((v - e0) / (e1 - e0)) 0 1 \<le> clamp ((w - e0) / (e1 - e0)) 0 1"
    by (rule clamp_mono)
  then show ?thesis
    unfolding smoothstep_def Let_def
    using clamp_range [of "(v - e0) / (e1 - e0)"] clamp_range [of "(w - e0) / (e1 - e0)"]
    by (intro cubic_mono) simp_all
qed

lemma smoothstep_range: "0 \<le> smoothstep e0 e1 v \<and> smoothstep e0 e1 v \<le> 1"
proof -
  define t where "t = clamp ((v - e0) / (e1 - e0)) 0 1"
  have t: "0 \<le> t" "t \<le> 1"
    using clamp_range [of "(v - e0) / (e1 - e0)"] by (simp_all add: t_def)
  have "t * t * (3 - 2 * t) \<le> 1 * 1 * (3 - 2 * 1)"
    using t by (intro cubic_mono) simp_all
  moreover have "0 * 0 * (3 - 2 * 0) \<le> t * t * (3 - 2 * t)"
    using t by (intro cubic_mono) simp_all
  ultimately show ?thesis by (simp add: smoothstep_def Let_def t_def)
qed

lemma sqrt_rat_square: "0 \<le> a \<Longrightarrow> b = a * a \<Longrightarrow> sqrt b = a"
  by (simp add: real_sqrt_mult)

lemma sqrt_1_25: "sqrt (1/25) = 1/5"
  by (rule sqrt_rat_square) simp_all

lemma sqrt_9_100: "sqrt (9/100) = 3/10"
  by (rule sqrt_rat_square) simp_all

lemma sqrt_9_25: "sqrt (9/25) = 3/5"
  by (rule sqrt_rat_square) simp_all

lemma sqrt_1_4: "sqrt (1/4) = 1/2"
  by (rule sqrt_rat_square) simp_all

section \<open>The gesture extractor\<close>

lemma mcpDist_nonneg: "0 \<le> mcpDistToWrist landmarks i"
  by (simp add: mcpDistToWrist_def Let_def)

text \<open>
  The loop counts exactly the curled fingers: a finger whose tip is further away than 1.2
  times the knuckle distance cannot also be closer than 0.9 times that distance, so the
  \<^verbatim>\<open>else if\<close> loses nothing.
\<close>

lemma finger_fold_curled:
  "snd (fold (finger_step landmarks) xs cnt)
     = snd cnt
       + length (filter (\<lambda>i. tipDistToWrist landmarks i < 0.9 * mcpDistToWrist landmarks i) xs)"
proof (induction xs arbitrary: cnt)
  case Nil
  then show ?case by simp
next
  case (Cons i xs)
  have m: "0 \<le> mcpDistToWrist landmarks i" by (rule mcpDist_nonneg)
  have "snd (finger_step landmarks i cnt)
          = snd cnt
            + (if tipDistToWrist landmarks i < 0.9 * mcpDistToWrist landmarks i then 1 else 0)"
    using m by (auto simp: finger_step_def)
  then show ?case using Cons.IH [of "finger_step landmarks i cnt"] by simp
qed

lemma upt_1_5: "[1..<5] = [1, 2, 3, 4::nat]"
  by (simp add: upt_rec)

text \<open>
  The loop reads the tips 8, 12, 16, 20 and the knuckles 5, 9, 13, 17 from its two index
  tables, at the positions 1 to 4.
\<close>

lemma loop_distances:
  "tipDistToWrist landmarks 1 = dist2 (landmarks ! 8) (landmarks ! 0)"
  "tipDistToWrist landmarks 2 = dist2 (landmarks ! 12) (landmarks ! 0)"
  "tipDistToWrist landmarks 3 = dist2 (landmarks ! 16) (landmarks ! 0)"
  "tipDistToWrist landmarks 4 = dist2 (landmarks ! 20) (landmarks ! 0)"
  "mcpDistToWrist landmarks 1 = dist2 (landmarks ! 5) (landmarks ! 0)"
  "mcpDistToWrist landmarks 2 = dist2 (landmarks ! 9) (landmarks ! 0)"
  "mcpDistToWrist landmarks 3 = dist2 (landmarks ! 13) (landmarks ! 0)"
  "mcpDistToWrist landmarks 4 = dist2 (landmarks ! 17) (landmarks ! 0)"
  by (simp_all add: tipDistToWrist_def mcpDistToWrist_def fingerTipIndices_def
      fingerMCPIndices_def dist2_def Let_def)

lemma fingersCurled_count: "fingersCurled landmarks = curled_count landmarks"
proof -
  have "fingersCurled landmarks
          = length (filter (\<lambda>i. tipDistToWrist landmarks i < 0.9 * mcpDistToWrist landmarks i)
              [1, 2, 3, 4])"
    unfolding fingersCurled_def finger_counts_def upt_1_5 finger_fold_curled by simp
  also have "\<dots> = curled_count landmarks"
    using loop_distances [of landmarks] by (simp add: curled_count_def curled_def)
  finally show ?thesis .
qed

lemma pinchDist_dist3: "pinchDist landmarks = dist3 (landmarks ! 4) (landmarks ! 8)"
  by (simp add: pinchDist_def dist3_def Let_def power2_eq_square)

lemma pinchStrength_remap: "pinchStrength landmarks = remap01 0.02 0.17 (pinchDist landmarks)"
  by (simp add: pinchStrength_def remap01_def min_def max_def field_simps)

lemma pinchStrength_range: "0 \<le> pinchStrength landmarks \<and> pinchStrength landmarks \<le> 1"
  by (simp add: pinchStrength_def)

lemma predict_tracked:
  "0 < videoWidth \<Longrightarrow>
   predictWebcam True videoWidth (Some (landmarks # others)) current = tracked_state landmarks"
  by (simp add: predictWebcam_def detect_update_def)

lemma fist_curled: "curled_count fist_frame = 4"
  by (simp add: curled_count_def curled_def dist2_def fist_frame_def lm_def power2_eq_square
      sqrt_1_25 sqrt_9_100)

lemma fist_pinch: "pinchStrength fist_frame = 0"
  by (simp add: pinchStrength_def pinchDist_def fist_frame_def lm_def Let_def)

lemma open_curled: "curled_count open_frame = 0"
  by (simp add: curled_count_def curled_def dist2_def open_frame_def lm_def power2_eq_square
      sqrt_9_25 sqrt_9_100)

lemma pinch_curled: "curled_count pinch_frame = 2"
  by (simp add: curled_count_def curled_def dist2_def pinch_frame_def lm_def power2_eq_square
      sqrt_1_25 sqrt_9_25 sqrt_9_100)

lemma point_curled: "curled_count point_frame = 3"
  by (simp add: curled_count_def curled_def dist2_def point_frame_def lm_def power2_eq_square
      sqrt_1_25 sqrt_9_25 sqrt_9_100)

text \<open>
  Claim C6. For a frame of 21 landmarks with a hand, the blast output is 1 exactly when at
  least 3 of the 4 non-thumb fingers are curled (the distance in the image plane from the
  tip, landmark 8, 12, 16 or 20, to the wrist, landmark 0, is below 0.9 times the distance
  from the base knuckle, landmark 5, 9, 13 or 17, to the wrist) and the pinch strength (the
  distance of the landmarks 4 and 8, mapped from 0.02 .. 0.17 to 0 .. 1 and clamped) is
  below 0.3; it is 0 otherwise. In particular four curled fingers with a pinch strength
  below 0.3 give 1, and fewer than three curled fingers give 0 whatever the pinch strength
  is.
\<close>

theorem fist_detection:
  assumes "length landmarks = 21" and "0 < videoWidth"
  shows "(blast (predictWebcam True videoWidth (Some (landmarks # others)) current) = 1
            \<longleftrightarrow> 3 \<le> curled_count landmarks
                \<and> remap01 0.02 0.17 (dist3 (landmarks ! 4) (landmarks ! 8)) < 0.3)
       \<and> (blast (predictWebcam True videoWidth (Some (landmarks # others)) current) = 0
            \<longleftrightarrow> \<not> (3 \<le> curled_count landmarks
                   \<and> remap01 0.02 0.17 (dist3 (landmarks ! 4) (landmarks ! 8)) < 0.3))
       \<and> pinch (predictWebcam True videoWidth (Some (landmarks # others)) current)
            = remap01 0.02 0.17 (dist3 (landmarks ! 4) (landmarks ! 8))
       \<and> (curled_count landmarks = 4
            \<and> pinch (predictWebcam True videoWidth (Some (landmarks # others)) current) < 0.3
            \<longrightarrow> blast (predictWebcam True videoWidth (Some (landmarks # others)) current) = 1)
       \<and> (curled_count landmarks < 3
            \<longrightarrow> blast (predictWebcam True videoWidth (Some (landmarks # others)) current) = 0)"
  using assms
  by (simp add: predict_tracked tracked_state_def blastValue_def isFist_def fingersCurled_count
      pinchStrength_remap pinchDist_dist3)

theorem fist_detection_witness:
  "curled_count fist_frame = 4
   \<and> pinch (predictWebcam True 320 (Some [fist_frame]) initialHandState) = 0
   \<and> blast (predictWebcam True 320 (Some [fist_frame]) initialHandState) = 1
   \<and> curled_count pinch_frame = 2
   \<and> pinch (predictWebcam True 320 (Some [pinch_frame]) initialHandState) = 0
   \<and> blast (predictWebcam True 320 (Some [pinch_frame]) initialHandState) = 0
   \<and> curled_count point_frame = 3
   \<and> pinch (predictWebcam True 320 (Some [point_frame]) initialHandState) = 1
   \<and> blast (predictWebcam True 320 (Some [point_frame]) initialHandState) = 0
   \<and> curled_count open_frame = 0
   \<and> pinch (predictWebcam True 320 (Some [open_frame]) initialHandState) = 1
   \<and> blast (predictWebcam True 320 (Some [open_frame]) initialHandState) = 0"
proof -
  have l1: "length fist_frame = 21" by (simp add: fist_frame_def)
  have l2: "length pinch_frame = 21" by (simp add: pinch_frame_def)
  have l3: "length point_frame = 21" by (simp add: point_frame_def)
  have l4: "length open_frame = 21" by (simp add: open_frame_def)
  have w: "(0::real) < 320" by simp
  have d1: "dist3 (fist_frame ! 4) (fist_frame ! 8) = 0"
    by (simp add: dist3_def fist_frame_def lm_def)
  have d2: "dist3 (pinch_frame ! 4) (pinch_frame ! 8) = 0"
    by (simp add: dist3_def pinch_frame_def lm_def)
  have d3: "dist3 (point_frame ! 4) (point_frame ! 8) = 1/2"
    by (simp add: dist3_def point_frame_def lm_def power2_eq_square sqrt_1_4)
  have d4: "dist3 (open_frame ! 4) (open_frame ! 8) = 1/2"
    by (simp add: dist3_def open_frame_def lm_def power2_eq_square sqrt_1_4)
  show ?thesis
    using fist_detection [OF l1 w, of "[]" initialHandState]
      fist_detection [OF l2 w, of "[]" initialHandState]
      fist_detection [OF l3 w, of "[]" initialHandState]
      fist_detection [OF l4 w, of "[]" initialHandState]
    by (simp add: fist_curled pinch_curled point_curled open_curled d1 d2 d3 d4 remap01_def)
qed

text \<open>
  Claim C7. For a frame of 21 landmarks with a hand, the pinch strength written to the hand
  state is the 3D Euclidean distance of thumb tip and index tip, mapped linearly so that
  0.02 goes to 0 and 0.17 goes to 1, and clamped: it is 0 for distances up to 0.02, 1 for
  distances from 0.17 on, and always lies in \<open>[0, 1]\<close>.
\<close>

theorem pinch_strength_remapped_and_clamped:
  assumes "length landmarks = 21" and "0 < videoWidth"
  shows "pinch (predictWebcam True videoWidth (Some (landmarks # others)) current)
           = remap01 0.02 0.17 (dist3 (landmarks ! 4) (landmarks ! 8))
         \<and> 0 \<le> pinch (predictWebcam True videoWidth (Some (landmarks # others)) current)
         \<and> pinch (predictWebcam True videoWidth (Some (landmarks # others)) current) \<le> 1"
  using assms pinchStrength_range [of landmarks]
  by (simp add: predict_tracked tracked_state_def pinchStrength_remap pinchDist_dist3)

theorem pinch_strength_witness:
  "pinch (predictWebcam True 320 (Some [fist_frame]) initialHandState) = 0
   \<and> pinch (predictWebcam True 320 (Some [open_frame]) initialHandState) = 1"
proof -
  have l1: "length fist_frame = 21" by (simp add: fist_frame_def)
  have l2: "length open_frame = 21" by (simp add: open_frame_def)
  have w: "(0::real) < 320" by simp
  have d1: "dist3 (fist_frame ! 4) (fist_frame ! 8) = 0"
    by (simp add: dist3_def fist_frame_def lm_def)
  have d2: "dist3 (open_frame ! 4) (open_frame ! 8) = 1/2"
    by (simp add: dist3_def open_frame_def lm_def power2_eq_square sqrt_1_4)
  show ?thesis
    using pinch_strength_remapped_and_clamped [OF l1 w, of "[]" initialHandState]
      pinch_strength_remapped_and_clamped [OF l2 w, of "[]" initialHandState]
    by (simp add: d1 d2 remap01_def)
qed

text \<open>
  Claim C8. When the detector ran and the sample has no hand (the landmark list is absent
  or empty), the new hand state is the previous one with only \<open>detected\<close> overwritten to
  false: pinch point, palm centre, pinch strength, rotation, finger tips and blast keep
  their previous values.
\<close>

theorem no_hand_keeps_fields:
  assumes "0 < videoWidth" and "results_landmarks = None \<or> results_landmarks = Some []"
  shows "predictWebcam True videoWidth results_landmarks current = current\<lparr>detected := False\<rparr>
       \<and> \<not> detected (predictWebcam True videoWidth results_landmarks current)
       \<and> hs_x (predictWebcam True videoWidth results_landmarks current) = hs_x current
       \<and> hs_y (predictWebcam True videoWidth results_landmarks current) = hs_y current
       \<and> palmX (predictWebcam True videoWidth results_landmarks current) = palmX current
       \<and> palmY (predictWebcam True videoWidth results_landmarks current) = palmY current
       \<and> pinch (predictWebcam True videoWidth results_landmarks current) = pinch current
       \<and> rotation (predictWebcam True videoWidth results_landmarks current) = rotation current
       \<and> fingerTips (predictWebcam True videoWidth results_landmarks current) = fingerTips current
       \<and> blast (predictWebcam True videoWidth results_landmarks current) = blast current"
  using assms by (auto simp: predictWebcam_def detect_update_def)

theorem no_hand_witness:
  "predictWebcam True 320 (Some []) (tracked_state fist_frame)
     = (tracked_state fist_frame)\<lparr>detected := False\<rparr>
   \<and> blast (predictWebcam True 320 None (tracked_state fist_frame)) = 1
   \<and> pinch (predictWebcam True 320 None (tracked_state fist_frame)) = 0
   \<and> \<not> detected (predictWebcam True 320 None (tracked_state fist_frame))"
proof -
  have w: "(0::real) < 320" by simp
  have b: "blast (tracked_state fist_frame) = 1"
    by (simp add: tracked_state_def blastValue_def isFist_def fingersCurled_count
        fist_curled fist_pinch)
  have p: "pinch (tracked_state fist_frame) = 0"
    by (simp add: tracked_state_def fist_pinch)
  show ?thesis
    using no_hand_keeps_fields [OF w, of "Some []" "tracked_state fist_frame"]
      no_hand_keeps_fields [OF w, of None "tracked_state fist_frame"] b p
    by simp
qed

section \<open>The particle generator\<close>

lemma appended_refl: "appended n s 0 st st"
  by (simp add: appended_def)

lemma appended_push: "appended n s 1 st (push_point n s p st)"
  by (cases p) (simp add: appended_def push_point_def well_numbered_def)

lemma appended_trans:
  "appended n s j a b \<Longrightarrow> appended n s k b c \<Longrightarrow> appended n s (j + k) a c"
  by (simp add: appended_def replicate_add)

lemma appended_fold:
  assumes "\<And>x st. appended n s k st (f x st)"
  shows "appended n s (length xs * k) st (fold f xs st)"
proof (induction xs arbitrary: st)
  case Nil
  show ?case by (simp add: appended_refl)
next
  case (Cons x xs)
  have "appended n s (k + length xs * k) st (fold f xs (f x st))"
    using assms [of st x] Cons.IH [of "f x st"] by (rule appended_trans)
  then show ?case by simp
qed

lemma appended_push_fold:
  "appended n s (length xs) st (fold (\<lambda>i. push_point n s (g i)) xs st)"
  using appended_fold [of n s 1 "\<lambda>i. push_point n s (g i)" xs st] appended_push
  by simp

lemma icoPoints_div: "icoPoints n = n div 5"
proof -
  have "real n * 0.2 = real n / real 5" by simp
  then show ?thesis
    unfolding icoPoints_def by (simp only: floor_divide_of_nat_eq nat_int)
qed

lemma length_icoEdges: "length icoEdges = 30"
  by (simp add: icoEdges_def)

lemma pointsPerEdge_div: "pointsPerEdge n = n div 5 div 30"
  unfolding pointsPerEdge_def icoPoints_div length_icoEdges
  by (simp only: floor_divide_of_nat_eq nat_int)

lemma ringPoints_div: "ringPoints n = 3 * n div 10"
proof -
  have "real n * 0.3 = real (3 * n) / real 10" by simp
  then show ?thesis
    unfolding ringPoints_def by (simp only: floor_divide_of_nat_eq nat_int)
qed

lemma pointsPerRing_div: "pointsPerRing n = 3 * n div 10 div 3"
proof -
  have "real (ringPoints n) / 3 = real (ringPoints n) / real 3" by simp
  then show ?thesis
    unfolding pointsPerRing_def by (simp only: floor_divide_of_nat_eq nat_int ringPoints_div)
qed

lemma spiralPoints_div: "spiralPoints n = 3 * n div 10"
proof -
  have "real n * 0.3 = real (3 * n) / real 10" by simp
  then show ?thesis
    unfolding spiralPoints_def by (simp only: floor_divide_of_nat_eq nat_int)
qed


lemma ico_loop_appended: "appended n Icosahedron (icoCount n) st (ico_loop n r st)"
proof -
  have "appended n Icosahedron (pointsPerEdge n) st' (ico_edge_loop n r e st')" for e st'
    using appended_push_fold [of n Icosahedron "[0..<pointsPerEdge n]" st']
    by (simp add: ico_edge_loop_def)
  then have "appended n Icosahedron (length [0..<length icoEdges] * pointsPerEdge n) st
               (fold (ico_edge_loop n r) [0..<length icoEdges] st)"
    by (rule appended_fold)
  then show ?thesis
    by (simp add: ico_loop_def length_icoEdges pointsPerEdge_div icoCount_def)
qed

lemma ring_loop_appended: "appended n Rings (ringCount n) st (ring_loop n r st)"
proof -
  have "appended n Rings (pointsPerRing n) st' (ring_inner_loop n r e st')" for e st'
    using appended_push_fold [of n Rings "[0..<pointsPerRing n]" st']
    by (simp add: ring_inner_loop_def)
  then have "appended n Rings (length [0..<3] * pointsPerRing n) st
               (fold (ring_inner_loop n r) [0..<3] st)"
    by (rule appended_fold)
  then show ?thesis
    by (simp add: ring_loop_def pointsPerRing_div ringCount_def)
qed

lemma spiral_loop_appended: "appended n Spiral (spiralCount n) st (spiral_loop n r st)"
  using appended_push_fold [of n Spiral "[0..<spiralPoints n]" st]
  by (simp add: spiral_loop_def spiralPoints_div spiralCount_def)

lemma float_loop_appended: "appended n Floating (n - idx st) st (float_loop n r rnd st)"
  using appended_push_fold [of n Floating "[0..<n - idx st]" st]
  by (simp add: float_loop_def Let_def)

lemma counts_le: "icoCount n + ringCount n + spiralCount n \<le> n"
proof -
  have "icoCount n \<le> n div 5" by (simp add: icoCount_def)
  moreover have "ringCount n \<le> 3 * n div 10" by (simp add: ringCount_def)
  ultimately show ?thesis by (simp add: spiralCount_def)
qed

lemma generate_shape:
  "idx (generate n scale rnd) = n
   \<and> made (generate n scale rnd) =
       replicate (icoCount n) Icosahedron @ replicate (ringCount n) Rings
       @ replicate (spiralCount n) Spiral @ replicate (floatCount n) Floating
   \<and> prog (generate n scale rnd) = map (\<lambda>k. real k / real n) [0..<n]"
proof -
  define r where "r = scale * 9.3"
  define st0 where "st0 = \<lparr> pts = [], prog = [], made = [], idx = 0 \<rparr>"
  define st1 where "st1 = ico_loop n r st0"
  define st2 where "st2 = ring_loop n r st1"
  define st3 where "st3 = spiral_loop n r st2"
  define st4 where "st4 = float_loop n r rnd st3"
  have g: "generate n scale rnd = st4"
    by (simp add: generate_def Let_def st4_def st3_def st2_def st1_def st0_def r_def)
  have w0: "well_numbered n st0" "idx st0 = 0" "made st0 = []"
    by (simp_all add: well_numbered_def st0_def)
  have a1: "appended n Icosahedron (icoCount n) st0 st1"
    unfolding st1_def by (rule ico_loop_appended)
  have a2: "appended n Rings (ringCount n) st1 st2"
    unfolding st2_def by (rule ring_loop_appended)
  have a3: "appended n Spiral (spiralCount n) st2 st3"
    unfolding st3_def by (rule spiral_loop_appended)
  have a4: "appended n Floating (n - idx st3) st3 st4"
    unfolding st4_def by (rule float_loop_appended)
  have i3: "idx st3 = icoCount n + ringCount n + spiralCount n"
    using a1 a2 a3 w0 by (simp add: appended_def)
  have f: "n - idx st3 = floatCount n"
    by (simp add: i3 floatCount_def)
  have i4: "idx st4 = n"
    using a4 i3 counts_le [of n] by (simp add: appended_def)
  have m4: "made st4 = replicate (icoCount n) Icosahedron @ replicate (ringCount n) Rings
       @ replicate (spiralCount n) Spiral @ replicate (floatCount n) Floating"
    using a1 a2 a3 a4 w0 f by (simp add: appended_def)
  have "well_numbered n st4"
    using a1 a2 a3 a4 w0 by (simp add: appended_def)
  then have p4: "prog st4 = map (\<lambda>k. real k / real n) [0..<n]"
    by (simp add: well_numbered_def i4)
  show ?thesis using i4 m4 p4 by (simp add: g)
qed

lemma count_made_generate:
  "count_made Icosahedron (generate n scale rnd) = icoCount n"
  "count_made Rings (generate n scale rnd) = ringCount n"
  "count_made Spiral (generate n scale rnd) = spiralCount n"
  "count_made Floating (generate n scale rnd) = floatCount n"
  by (simp_all add: count_made_def generate_shape)

lemma prog_nth: "i < n \<Longrightarrow> prog (generate n scale rnd) ! i = real i / real n"
  by (simp add: generate_shape)

lemma count_bounds_nat:
  "5 * icoCount n \<le> n" "n < 5 * icoCount n + 150"
  "10 * ringCount n \<le> 3 * n" "3 * n < 10 * ringCount n + 30"
  "10 * spiralCount n \<le> 3 * n" "3 * n < 10 * spiralCount n + 10"
  unfolding icoCount_def ringCount_def spiralCount_def by linarith+

lemma count_bounds_real:
  "real (icoCount n) \<le> 0.2 * real n" "0.2 * real n - 30 < real (icoCount n)"
  "real (ringCount n) \<le> 0.3 * real n" "0.3 * real n - 3 < real (ringCount n)"
  "real (spiralCount n) \<le> 0.3 * real n" "0.3 * real n - 1 < real (spiralCount n)"
proof -
  have "real (5 * icoCount n) \<le> real n" "real n < real (5 * icoCount n + 150)"
    "real (10 * ringCount n) \<le> real (3 * n)" "real (3 * n) < real (10 * ringCount n + 30)"
    "real (10 * spiralCount n) \<le> real (3 * n)" "real (3 * n) < real (10 * spiralCount n + 10)"
    using count_bounds_nat [of n] by (simp_all only: of_nat_le_iff of_nat_less_iff)
  then show "real (icoCount n) \<le> 0.2 * real n" "0.2 * real n - 30 < real (icoCount n)"
  "real (ringCount n) \<le> 0.3 * real n" "0.3 * real n - 3 < real (ringCount n)"
  "real (spiralCount n) \<le> 0.3 * real n" "0.3 * real n - 1 < real (spiralCount n)"
    by simp_all
qed

lemma float_bounds_real:
  "0.2 * real n \<le> real (floatCount n)" "real (floatCount n) < 0.2 * real n + 34"
proof -
  have "real (floatCount n) = real n - (real (icoCount n) + real (ringCount n) + real (spiralCount n))"
    using counts_le [of n] by (simp add: floatCount_def of_nat_diff)
  then show "0.2 * real n \<le> real (floatCount n)" "real (floatCount n) < 0.2 * real n + 34"
    using count_bounds_real [of n] by linarith+
qed

lemma prog_sorted: "sorted_wrt (<) (prog (generate n scale rnd))"
proof -
  have "real i / real n < real j / real n" if "i < j" "j < n" for i j
    using that by (simp add: divide_strict_right_mono)
  then show ?thesis
    by (simp add: generate_shape sorted_wrt_iff_nth_less)
qed

text \<open>
  Claim C3, as stated, has every count within rounding of its target. For the particle
  count of the source, 40000, the icosahedron loop makes 7980 points (266 on each of the
  30 edges), 20 short of the target 8000, and the floating shell takes 8020. For 100
  particles no edge gets a point: the icosahedron has 0 points and the shell 40.
\<close>

theorem generator_counts_counterexample:
  "count_made Icosahedron (curve_points 3.5 sample_rnd) = 7980
   \<and> \<not> within_rounding (count_made Icosahedron (curve_points 3.5 sample_rnd)) 0.2 40000
   \<and> count_made Floating (curve_points 3.5 sample_rnd) = 8020
   \<and> \<not> within_rounding (count_made Floating (curve_points 3.5 sample_rnd)) 0.2 40000
   \<and> count_made Icosahedron (generate 100 3.5 sample_rnd) = 0
   \<and> \<not> within_rounding (count_made Icosahedron (generate 100 3.5 sample_rnd)) 0.2 100
   \<and> count_made Floating (generate 100 3.5 sample_rnd) = 40
   \<and> \<not> within_rounding (count_made Floating (generate 100 3.5 sample_rnd)) 0.2 100"
  by (simp add: curve_points_def numPoints_default_def count_made_generate icoCount_def
      floatCount_def ringCount_def spiralCount_def within_rounding_def)

text \<open>
  Claim C3, amended. For any particle count \<open>n\<close> the four counts sum to exactly \<open>n\<close>. The
  spiral count is 30% of \<open>n\<close> rounded down. The icosahedron count is the largest multiple
  of 30 that is at most 20% of \<open>n\<close> rounded down (equal points on each edge), so it is
  less than 30 below its target; the ring count is the largest multiple of 3 that is at
  most 30% of \<open>n\<close> rounded down, less than 3 below its target; the floating shell takes
  all remaining points, at least 20% of \<open>n\<close> and less than 34 more. The progress value of
  the \<open>i\<close>-th point is \<open>i / n\<close>, lies in \<open>[0, 1)\<close>, and the progress values increase
  strictly (so they never decrease) in generation order.
\<close>

theorem generator_counts_and_progress:
  "length (prog (generate n scale rnd)) = n
   \<and> count_made Icosahedron (generate n scale rnd) + count_made Rings (generate n scale rnd)
       + count_made Spiral (generate n scale rnd) + count_made Floating (generate n scale rnd) = n
   \<and> count_made Icosahedron (generate n scale rnd) = 30 * (n div 5 div 30)
   \<and> count_made Rings (generate n scale rnd) = 3 * (3 * n div 10 div 3)
   \<and> count_made Spiral (generate n scale rnd) = 3 * n div 10
   \<and> 0.2 * real n - 30 < real (count_made Icosahedron (generate n scale rnd))
   \<and> real (count_made Icosahedron (generate n scale rnd)) \<le> 0.2 * real n
   \<and> 0.3 * real n - 3 < real (count_made Rings (generate n scale rnd))
   \<and> real (count_made Rings (generate n scale rnd)) \<le> 0.3 * real n
   \<and> within_rounding (count_made Spiral (generate n scale rnd)) 0.3 n
   \<and> 0.2 * real n \<le> real (count_made Floating (generate n scale rnd))
   \<and> real (count_made Floating (generate n scale rnd)) < 0.2 * real n + 34
   \<and> (\<forall>i<n. prog (generate n scale rnd) ! i = real i / real n
             \<and> 0 \<le> prog (generate n scale rnd) ! i \<and> prog (generate n scale rnd) ! i < 1)
   \<and> sorted_wrt (<) (prog (generate n scale rnd))
   \<and> sorted (prog (generate n scale rnd))"
proof -
  have len: "length (prog (generate n scale rnd)) = n"
    by (simp add: generate_shape)
  have total: "icoCount n + ringCount n + spiralCount n + floatCount n = n"
    using counts_le [of n] by (simp add: floatCount_def)
  have sp: "within_rounding (spiralCount n) 0.3 n"
    using count_bounds_real(5,6) [of n] by (simp add: within_rounding_def abs_less_iff)
  have pr: "\<forall>i<n. prog (generate n scale rnd) ! i = real i / real n
             \<and> 0 \<le> prog (generate n scale rnd) ! i \<and> prog (generate n scale rnd) ! i < 1"
    by (simp add: prog_nth)
  have so: "sorted (prog (generate n scale rnd))"
    using prog_sorted [of n scale rnd] by (simp add: strict_sorted_iff)
  show ?thesis
    using len total sp pr so prog_sorted [of n scale rnd] count_bounds_real [of n]
      float_bounds_real [of n]
    by (simp add: count_made_generate icoCount_def ringCount_def spiralCount_def)
qed

theorem generator_counts_witness:
  "count_made Icosahedron (curve_points 3.5 sample_rnd) = 7980
   \<and> count_made Rings (curve_points 3.5 sample_rnd) = 12000
   \<and> count_made Spiral (curve_points 3.5 sample_rnd) = 12000
   \<and> count_made Floating (curve_points 3.5 sample_rnd) = 8020
   \<and> prog (curve_points 3.5 sample_rnd) ! 7980 = 0.1995
   \<and> prog (curve_points 3.5 sample_rnd) ! 39999 < 1"
proof -
  note t = generator_counts_and_progress [of 40000 "35/10" sample_rnd]
  from t have c: "count_made Icosahedron (generate 40000 (35/10) sample_rnd) = 7980"
    "count_made Rings (generate 40000 (35/10) sample_rnd) = 12000"
    "count_made Spiral (generate 40000 (35/10) sample_rnd) = 12000"
    by simp_all
  from t c have f: "count_made Floating (generate 40000 (35/10) sample_rnd) = 8020"
    by simp
  from t have p: "\<forall>i<40000. prog (generate 40000 (35/10) sample_rnd) ! i = real i / real 40000
      \<and> 0 \<le> prog (generate 40000 (35/10) sample_rnd) ! i
      \<and> prog (generate 40000 (35/10) sample_rnd) ! i < 1"
    by blast
  show ?thesis
    using c f p [rule_format, of 7980] p [rule_format, of 39999]
    by (simp add: curve_points_def numPoints_default_def)
qed

text \<open>
  Claim C2. With the 40000 particles of the source, the particle of index 7980 is the
  first point of the first ring, its progress value is 0.1995, and the shader's threshold
  \<open>progress < 0.2\<close> selects the icosahedron for it: the sub-structure a particle was
  generated in is not always the one its progress value selects.
\<close>

theorem ring_particle_selected_as_icosahedron:
  "made (curve_points scale rnd) ! 7980 = Rings
   \<and> prog (curve_points scale rnd) ! 7980 = 0.1995
   \<and> structure_sel (prog (curve_points scale rnd) ! 7980) = structure_code Icosahedron
   \<and> structure_sel (prog (curve_points scale rnd) ! 7980)
       \<noteq> structure_code (made (curve_points scale rnd) ! 7980)"
proof -
  have m: "made (curve_points scale rnd) ! 7980 = Rings"
    by (simp add: curve_points_def numPoints_default_def generate_shape nth_append
        icoCount_def ringCount_def)
  have p: "prog (curve_points scale rnd) ! 7980 = 0.1995"
    by (simp add: curve_points_def numPoints_default_def prog_nth)
  show ?thesis by (simp add: m p structure_sel_def)
qed

section \<open>The per-frame smoothing\<close>

lemma frame_targets_undetected:
  "\<not> detected hs \<Longrightarrow>
   frame_targets (Some hs) =
     \<lparr> magicValue = 0, rotationTarget = 0, blastTarget = 0, pinchValue = 1, visibleTarget = 0 \<rparr>"
  by (simp add: frame_targets_def Let_def)

lemma useFrame_undetected:
  assumes "\<not> detected hs"
  shows "uMagic (useFrame t (Some hs) u) = 0.92 * uMagic u"
    and "uVisible (useFrame t (Some hs) u) = 0.9 * uVisible u"
  using assms
  by (simp_all add: useFrame_def Let_def frame_targets_undetected lerp_def)

lemma frames_undetected:
  assumes "\<not> detected hs"
  shows "uMagic (frames clock n (Some hs) u) = 0.92 ^ n * uMagic u
       \<and> uVisible (frames clock n (Some hs) u) = 0.9 ^ n * uVisible u"
  using assms by (induction n) (simp_all add: useFrame_undetected)

text \<open>
  Claim C10. When the hand state is not detected, the targets of the frame are visibility
  0, pinch 1.0, magic 0, rotation 0 and blast 0. The magic target is 0 and not the
  smoothstep of the pinch target, which is 1. So after \<open>n\<close> frames without a hand the
  magic signal is \<open>0.92 ^ n\<close> times, and the visibility \<open>0.9 ^ n\<close> times, what it was: both
  decay towards 0, that is towards structure A and towards invisible.
\<close>

theorem undetected_targets:
  assumes "\<not> detected hs"
  shows "frame_targets (Some hs) =
           \<lparr> magicValue = 0, rotationTarget = 0, blastTarget = 0, pinchValue = 1,
             visibleTarget = 0 \<rparr>
       \<and> MathUtils_smoothstep (pinchValue (frame_targets (Some hs))) 0.3 0.8 = 1
       \<and> magicValue (frame_targets (Some hs))
           \<noteq> MathUtils_smoothstep (pinchValue (frame_targets (Some hs))) 0.3 0.8
       \<and> uMagic (frames clock n (Some hs) u) = 0.92 ^ n * uMagic u
       \<and> uVisible (frames clock n (Some hs) u) = 0.9 ^ n * uVisible u"
  using assms frames_undetected [OF assms, of clock n u]
  by (simp add: frame_targets_undetected MathUtils_smoothstep_def)

theorem undetected_targets_witness:
  "\<not> detected initialHandState
   \<and> magicValue (frame_targets (Some initialHandState)) = 0
   \<and> pinchValue (frame_targets (Some initialHandState)) = 1
   \<and> visibleTarget (frame_targets (Some initialHandState)) = 0
   \<and> rotationTarget (frame_targets (Some initialHandState)) = 0
   \<and> blastTarget (frame_targets (Some initialHandState)) = 0
   \<and> uMagic (frames real 2 (Some initialHandState) (initial_uniforms\<lparr>uMagic := 1\<rparr>)) = 0.8464"
proof -
  have d: "\<not> detected initialHandState" by (simp add: initialHandState_def)
  show ?thesis
    using d undetected_targets [OF d, of real 2 "initial_uniforms\<lparr>uMagic := 1\<rparr>"]
    by (simp add: power2_eq_square)
qed

text \<open>
  Claim C4. The blast amount moves towards 1.0 by the fraction 0.08 of the remaining gap
  in a frame with the trigger, and towards 0.0 by the fraction 0.06 of its value in a
  frame without: the decay rate is smaller than the onset rate, not greater.
\<close>

theorem blast_rates:
  "blast_update c 1 = c + 0.08 * (1 - c)
   \<and> blast_update c 0 = c - 0.06 * c
   \<and> blast_update 0 1 - 0 = 0.08
   \<and> 1 - blast_update 1 0 = 0.06
   \<and> blast_decay_rate < blast_onset_rate"
  by (simp add: blast_update_def lerp_def blast_onset_rate_def blast_decay_rate_def field_simps)

section \<open>Structure A: the size factor\<close>

text \<open>
  Claim C5, as stated, makes the structure smallest at a fully open hand (pinch signal 1).
  The size factor is 1 there and 0.3 at pinch signal 0.
\<close>

theorem orbScale_counterexample:
  "orbScale 1 = 1 \<and> orbScale 0 = 0.3 \<and> \<not> (orbScale 1 < orbScale 0)"
  by (simp add: orbScale_def shrinkFactor_def minSize_def mix_def smoothstep_ge_edge1
      smoothstep_le_edge0)

text \<open>
  Claim C5, amended. The structure-A position is the rotated position times the pulse
  times the size factor \<open>0.3 + 0.7 * smoothstep 0.2 0.7 pinch\<close>. The factor lies between
  0.3 and 1, is 0.3 for a pinch signal up to 0.2 (fingers touching), is 1 from 0.7 on
  (hand open), and never decreases when the pinch signal increases: the structure shrinks
  as the fingers close, down to 30% of its full size.
\<close>

theorem orbScale_shape:
  "butterflyPos position aProgress t p
     = vscale (vscale (rotated position aProgress t) (pulse t)) (orbScale p)
   \<and> orbScale p = 0.3 + 0.7 * smoothstep 0.2 0.7 p
   \<and> 0.3 \<le> orbScale p \<and> orbScale p \<le> 1
   \<and> (p \<le> 0.2 \<longrightarrow> orbScale p = 0.3)
   \<and> (0.7 \<le> p \<longrightarrow> orbScale p = 1)
   \<and> (p \<le> q \<longrightarrow> orbScale p \<le> orbScale q)"
proof -
  have e: "orbScale p = 0.3 + 0.7 * smoothstep 0.2 0.7 p" for p
    by (simp add: orbScale_def shrinkFactor_def minSize_def mix_def algebra_simps)
  have r: "0.3 \<le> orbScale p \<and> orbScale p \<le> 1"
    using smoothstep_range [of "2/10" "7/10" p] by (simp add: e)
  have lo: "p \<le> 0.2 \<longrightarrow> orbScale p = 0.3"
    by (simp add: e smoothstep_le_edge0)
  have hi: "0.7 \<le> p \<longrightarrow> orbScale p = 1"
    by (simp add: e smoothstep_ge_edge1)
  have m: "p \<le> q \<longrightarrow> orbScale p \<le> orbScale q"
    using smoothstep_mono [of "2/10" "7/10" p q] by (simp add: e)
  show ?thesis using e [of p] r lo hi m by (simp add: butterflyPos_def)
qed

theorem orbScale_shape_witness:
  "orbScale (1/10) = 0.3 \<and> orbScale (9/10) = 1 \<and> orbScale (1/10) \<le> orbScale (9/10)
   \<and> orbScale (9/20) = 0.65"
  using orbScale_shape [of "(0,0,0)" 0 0 "1/10" "9/10"] orbScale_shape [of "(0,0,0)" 0 0 "9/10" 1]
    orbScale_shape [of "(0,0,0)" 0 0 "9/20" 1]
  by (simp add: smoothstep_def clamp_def)

section \<open>The blend\<close>

text \<open>
  Bounds for \<open>\<pi>\<close> from the Maclaurin expansion of the cosine with 14 terms: the cosine is
  positive at 1.570795 and negative at 1.5708.
\<close>

lemma cos_lower:
  assumes "0 < x"
  shows "(\<Sum>m<14. cos_coeff m * x ^ m) - x ^ 14 / fact 14 \<le> cos x"
proof -
  obtain t where t: "cos x = (\<Sum>m<14. cos_coeff m * x ^ m) + (cos (t + 1/2 * real 14 * pi) / fact 14) * x ^ 14"
    using Maclaurin_cos_expansion2 [of x 14] assms by auto
  have "- 1 \<le> cos (t + 1/2 * real 14 * pi)" by simp
  then have "- 1 * (x ^ 14 / fact 14) \<le> cos (t + 1/2 * real 14 * pi) * (x ^ 14 / fact 14)"
    using assms by (intro mult_right_mono) simp_all
  then show ?thesis using t by simp
qed

lemma cos_upper:
  assumes "0 < x"
  shows "cos x \<le> (\<Sum>m<14. cos_coeff m * x ^ m) + x ^ 14 / fact 14"
proof -
  obtain t where t: "cos x = (\<Sum>m<14. cos_coeff m * x ^ m) + (cos (t + 1/2 * real 14 * pi) / fact 14) * x ^ 14"
    using Maclaurin_cos_expansion2 [of x 14] assms by auto
  have "cos (t + 1/2 * real 14 * pi) \<le> 1" by simp
  then have "cos (t + 1/2 * real 14 * pi) * (x ^ 14 / fact 14) \<le> 1 * (x ^ 14 / fact 14)"
    using assms by (intro mult_right_mono) simp_all
  then show ?thesis using t by simp
qed

lemma sum_lessThan_14:
  fixes f :: "nat \<Rightarrow> real"
  shows "(\<Sum>m<14. f m) = f 0 + f 1 + f 2 + f 3 + f 4 + f 5 + f 6 + f 7 + f 8 + f 9 + f 10
          + f 11 + f 12 + f 13"
  by (simp add: eval_nat_numeral)

lemma cos_coeff_values:
  "cos_coeff 1 = 0" "cos_coeff 2 = - 1 / 2" "cos_coeff 3 = 0" "cos_coeff 4 = 1 / 24"
  "cos_coeff 5 = 0" "cos_coeff 6 = - 1 / 720" "cos_coeff 7 = 0" "cos_coeff 8 = 1 / 40320"
  "cos_coeff 9 = 0" "cos_coeff 10 = - 1 / 3628800" "cos_coeff 11 = 0"
  "cos_coeff 12 = 1 / 479001600" "cos_coeff 13 = 0"
  by (simp_all add: cos_coeff_def fact_numeral)

lemma cos_poly:
  "(\<Sum>m<14. cos_coeff m * x ^ m) =
     1 - x^2 / 2 + x^4 / 24 - x^6 / 720 + x^8 / 40320 - x^10 / 3628800 + x^12 / 479001600"
  unfolding sum_lessThan_14 cos_coeff_values by simp

lemma fact_14: "fact 14 = (87178291200::real)"
  by (simp add: fact_numeral)

lemma cos_1570795_pos: "0 < cos (1570795 / 1000000 :: real)"
proof -
  define x :: real where "x = 1570795 / 1000000"
  have "0 < 1 - x^2 / 2 + x^4 / 24 - x^6 / 720 + x^8 / 40320 - x^10 / 3628800
            + x^12 / 479001600 - x^14 / 87178291200"
    unfolding x_def by (simp add: power_divide)
  also have "\<dots> \<le> cos x"
    using cos_lower [of x] unfolding cos_poly fact_14 by (simp add: x_def)
  finally show ?thesis by (simp add: x_def)
qed

lemma cos_15708_neg: "cos (15708 / 10000 :: real) < 0"
proof -
  define x :: real where "x = 15708 / 10000"
  have "cos x \<le> 1 - x^2 / 2 + x^4 / 24 - x^6 / 720 + x^8 / 40320 - x^10 / 3628800
            + x^12 / 479001600 + x^14 / 87178291200"
    using cos_upper [of x] unfolding cos_poly fact_14 by (simp add: x_def)
  also have "\<dots> < 0"
    unfolding x_def by (simp add: power_divide)
  finally show ?thesis by (simp add: x_def)
qed

lemma pi_gt_314159: "314159 / 100000 < pi"
proof (rule ccontr)
  assume "\<not> 314159 / 100000 < pi"
  then have h: "pi / 2 \<le> 1570795 / 1000000" by simp
  have "cos (1570795 / 1000000) \<le> cos (pi / 2)"
    using h pi_ge_two by (intro cos_monotone_0_pi_le) simp_all
  then show False using cos_1570795_pos by simp
qed

lemma pi_lt_31416: "pi < 31416 / 10000"
proof (rule ccontr)
  assume "\<not> pi < 31416 / 10000"
  then have h: "15708 / 10000 \<le> pi / 2" by simp
  have "0 \<le> cos (15708 / 10000 :: real)"
    using h by (intro cos_ge_zero) simp_all
  then show False using cos_15708_neg by simp
qed

lemma sin_314159_bounds: "0 < sin (314159 / 100000 :: real)" "sin (314159 / 100000 :: real) < 1 / 100000"
proof -
  show "0 < sin (314159 / 100000 :: real)"
    using pi_gt_314159 by (intro sin_gt_zero) simp_all
  have "sin (314159 / 100000 :: real) = sin (pi - 314159 / 100000)" by simp
  also have "\<dots> \<le> pi - 314159 / 100000"
    using pi_gt_314159 by (intro sin_x_le_x) simp
  also have "\<dots> < 1 / 100000"
    using pi_lt_31416 by simp
  finally show "sin (314159 / 100000 :: real) < 1 / 100000" .
qed

lemma noiseAmp_1: "noiseAmp 1 = sin (314159 / 100000) * 5 / 2"
  by (simp add: noiseAmp_def)

lemma noiseAmp_0: "noiseAmp 0 = 0"
  by (simp add: noiseAmp_def)

lemma hash_range: "0 \<le> hash v \<and> hash v < 1"
  unfolding hash_def fract_def by linarith

lemma hash_0: "hash 0 = 0"
  by (simp add: hash_def fract_def)

lemma easeMagic_unit: "0 \<le> m \<Longrightarrow> m \<le> 1 \<Longrightarrow> easeMagic m = m * m * (3 - 2 * m)"
  by (simp add: easeMagic_def smoothstep_def clamp_def Let_def min_def max_def)

lemma easeMagic_0_iff:
  assumes "0 \<le> m" "m \<le> 1"
  shows "easeMagic m = 0 \<longleftrightarrow> m = 0"
proof -
  have "3 - 2 * m \<noteq> 0" using assms by simp
  then show ?thesis using assms by (simp add: easeMagic_unit)
qed

lemma easeMagic_1_iff:
  assumes "0 \<le> m" "m \<le> 1"
  shows "easeMagic m = 1 \<longleftrightarrow> m = 1"
proof -
  have "1 - m * m * (3 - 2 * m) = (1 - m) * (1 - m) * (1 + 2 * m)"
    by (simp add: algebra_simps)
  moreover have "1 + 2 * m \<noteq> 0" using assms by simp
  ultimately have "1 - m * m * (3 - 2 * m) = 0 \<longleftrightarrow> m = 1"
    by simp
  then show ?thesis using assms by (simp add: easeMagic_unit)
qed

lemma blend_at_0: "blend bPos magicPos a 0 = bPos"
  by (cases bPos; cases magicPos)
    (simp add: blend_def rotatedButterfly_def easeMagic_def smoothstep_le_edge0 vmix_def mix_def
      noise_def noiseAmp_0 vscale_def vadd_def Let_def)

lemma blend_at_1: "blend bPos magicPos a 1 = vadd magicPos (noise a 1)"
  by (cases bPos; cases magicPos)
    (simp add: blend_def rotatedButterfly_def easeMagic_def smoothstep_ge_edge1 vmix_def mix_def
      Let_def)

lemma noise_at_1:
  "noise a 1 = vscale (hash (a * 10) - 0.5, hash (a * 20) - 0.5, hash (a * 30) - 0.5)
                 (2.5 * sin 3.14159)"
  by (simp add: noise_def noiseAmp_1 vscale_def)

lemma noise_component_bound:
  fixes h :: real
  assumes "0 \<le> h" "h < 1"
  shows "\<bar>(h - 1 / 2) * (sin (314159 / 100000) * 5 / 2)\<bar> < 1 / 80000"
proof -
  have s: "0 < sin (314159 / 100000 :: real)" "sin (314159 / 100000 :: real) < 1 / 100000"
    by (rule sin_314159_bounds)+
  have "\<bar>(h - 1 / 2) * (sin (314159 / 100000) * 5 / 2)\<bar>
          = \<bar>h - 1 / 2\<bar> * (sin (314159 / 100000) * 5 / 2)"
    using s by (simp add: abs_mult)
  also have "\<dots> \<le> 1 / 2 * (sin (314159 / 100000) * 5 / 2)"
  proof (rule mult_right_mono)
    show "\<bar>h - 1 / 2\<bar> \<le> 1 / 2" using assms by linarith
    show "0 \<le> sin (314159 / 100000 :: real) * 5 / 2" using s by simp
  qed
  also have "\<dots> < 1 / 80000" using s by simp
  finally show ?thesis .
qed

lemma noise_small: "max_abs (noise a 1) < 0.0000125"
  using noise_component_bound [of "hash (a * 10)"] noise_component_bound [of "hash (a * 20)"]
    noise_component_bound [of "hash (a * 30)"] hash_range [of "a * 10"] hash_range [of "a * 20"]
    hash_range [of "a * 30"]
  by (simp add: noise_def noiseAmp_1 vscale_def max_abs_def)

text \<open>
  Claim C1, as stated, has no residual noise at the eased parameter 1. The noise amplitude
  of the shader is \<open>sin (magic * 3.14159) * 2.5\<close>, with the decimal 3.14159 for \<open>\<pi>\<close>, and
  at magic 1 it is not 0: for the particle of progress 0 every coordinate of the output is
  off the structure-B position by half the amplitude.
\<close>

theorem blend_residual_counterexample:
  "easeMagic 1 = 1 \<and> noiseAmp 1 \<noteq> 0 \<and> blend (1, 0, 0) (0, 1, 0) 0 1 \<noteq> (0, 1, 0)"
proof -
  have e: "easeMagic 1 = 1" by (simp add: easeMagic_def smoothstep_ge_edge1)
  have n: "noiseAmp 1 \<noteq> 0" using sin_314159_bounds(1) by (simp add: noiseAmp_1)
  have "blend (1, 0, 0) (0, 1, 0) 0 1 = vadd (0, 1, 0) (noise 0 1)"
    by (rule blend_at_1)
  also have "\<dots> = (- (1 / 2) * noiseAmp 1, 1 - (1 / 2) * noiseAmp 1, - (1 / 2) * noiseAmp 1)"
    by (simp add: noise_def hash_0 vscale_def vadd_def)
  finally have "blend (1, 0, 0) (0, 1, 0) 0 1 \<noteq> (0, 1, 0)" using n by simp
  then show ?thesis using e n by simp
qed

text \<open>
  Claim C1, amended. For a magic signal in \<open>[0, 1]\<close>: when the eased parameter is 0, the
  structure-A position is rotated by the angle 0, that is left as it is, and the blended
  output equals it, with no noise. When the eased parameter is 1, the blended output is
  the structure-B position plus the per-particle noise vector
  \<open>(hash (10 p) - 0.5, hash (20 p) - 0.5, hash (30 p) - 0.5) * 2.5 * sin 3.14159\<close>; since
  \<open>0 < sin 3.14159 < 0.00001\<close>, every coordinate of that residual is below 0.0000125 in
  absolute value.
\<close>

theorem blend_endpoints:
  assumes "0 \<le> m" and "m \<le> 1"
  shows "(easeMagic m = 0 \<longrightarrow>
            rotatedButterfly bPos m = bPos \<and> blend bPos magicPos a m = bPos)
       \<and> (easeMagic m = 1 \<longrightarrow>
            blend bPos magicPos a m = vadd magicPos (noise a m)
            \<and> noise a m = vscale (hash (a * 10) - 0.5, hash (a * 20) - 0.5, hash (a * 30) - 0.5)
                             (2.5 * sin 3.14159)
            \<and> max_abs (noise a m) < 0.0000125)
       \<and> 0 < sin (3.14159 :: real) \<and> sin (3.14159 :: real) < 0.00001"
proof -
  have z: "rotatedButterfly bPos 0 = bPos"
    by (cases bPos) (simp add: rotatedButterfly_def easeMagic_def smoothstep_le_edge0 Let_def)
  have a0: "easeMagic m = 0 \<longrightarrow> rotatedButterfly bPos m = bPos \<and> blend bPos magicPos a m = bPos"
    using assms by (simp add: easeMagic_0_iff blend_at_0 z)
  have a1: "easeMagic m = 1 \<longrightarrow>
            blend bPos magicPos a m = vadd magicPos (noise a m)
            \<and> noise a m = vscale (hash (a * 10) - 0.5, hash (a * 20) - 0.5, hash (a * 30) - 0.5)
                             (2.5 * sin 3.14159)
            \<and> max_abs (noise a m) < 0.0000125"
    using assms noise_small [of a] noise_at_1 [of a] by (simp add: easeMagic_1_iff blend_at_1)
  have s: "0 < sin (3.14159 :: real)" "sin (3.14159 :: real) < 0.00001"
    using sin_314159_bounds by simp_all
  from a0 a1 s show ?thesis by blast
qed

theorem blend_endpoints_witness:
  "blend (1, 2, 3) (4, 5, 6) 0 0 = (1, 2, 3)
   \<and> blend (1, 2, 3) (4, 5, 6) 0 1
       = (4 - 1.25 * sin 3.14159, 5 - 1.25 * sin 3.14159, 6 - 1.25 * sin 3.14159)"
proof -
  have e0: "easeMagic 0 = 0" by (simp add: easeMagic_def smoothstep_le_edge0)
  have e1: "easeMagic 1 = 1" by (simp add: easeMagic_def smoothstep_ge_edge1)
  show ?thesis
    using blend_endpoints [of 0 "(1, 2, 3)" "(4, 5, 6)" 0] blend_endpoints [of 1 "(1, 2, 3)" "(4, 5, 6)" 0]
      e0 e1
    by (simp add: hash_0 vscale_def vadd_def)
qed

section \<open>The blast overlay\<close>


end
